theory Spec2Isabelle
  imports Complex_Main
begin

section \<open>Python floats\<close>

text \<open>
  A Python \<open>float\<close> is modelled as an extended real with a not-a-number value.
  Arithmetic on finite values is exact: the rounding of IEEE doubles to 53 bits and
  overflow to infinity are not part of the model. Comparisons with \<open>NaN\<close> are
  false, as in Python. An \<open>int\<close> operand mixed into float arithmetic is the finite
  value of the same magnitude.
\<close>

datatype pyfloat = Finite real | PosInf | NegInf | NaN

fun flt :: "pyfloat \<Rightarrow> pyfloat \<Rightarrow> bool" where
  "flt NaN _ = False"
| "flt _ NaN = False"
| "flt (Finite a) (Finite b) = (a < b)"
| "flt (Finite _) PosInf = True"
| "flt (Finite _) NegInf = False"
| "flt PosInf _ = False"
| "flt NegInf NegInf = False"
| "flt NegInf _ = True"

fun fle :: "pyfloat \<Rightarrow> pyfloat \<Rightarrow> bool" where
  "fle NaN _ = False"
| "fle _ NaN = False"
| "fle (Finite a) (Finite b) = (a \<le> b)"
| "fle (Finite _) PosInf = True"
| "fle (Finite _) NegInf = False"
| "fle PosInf PosInf = True"
| "fle PosInf _ = False"
| "fle NegInf _ = True"

definition fgt :: "pyfloat \<Rightarrow> pyfloat \<Rightarrow> bool" where
  "fgt x y = flt y x"

definition fge :: "pyfloat \<Rightarrow> pyfloat \<Rightarrow> bool" where
  "fge x y = fle y x"

fun fneg :: "pyfloat \<Rightarrow> pyfloat" where
  "fneg (Finite a) = Finite (- a)"
| "fneg PosInf = NegInf"
| "fneg NegInf = PosInf"
| "fneg NaN = NaN"

fun fadd :: "pyfloat \<Rightarrow> pyfloat \<Rightarrow> pyfloat" where
  "fadd NaN _ = NaN"
| "fadd _ NaN = NaN"
| "fadd (Finite a) (Finite b) = Finite (a + b)"
| "fadd (Finite _) y = y"
| "fadd PosInf NegInf = NaN"
| "fadd PosInf _ = PosInf"
| "fadd NegInf PosInf = NaN"
| "fadd NegInf _ = NegInf"

definition fsub :: "pyfloat \<Rightarrow> pyfloat \<Rightarrow> pyfloat" where
  "fsub x y = fadd x (fneg y)"

text \<open>The sign of a float that is not \<open>NaN\<close>: \<open>-1\<close>, \<open>0\<close> or \<open>1\<close>.\<close>

fun fsign :: "pyfloat \<Rightarrow> int" where
  "fsign (Finite a) = (if a < 0 then - 1 else if a = 0 then 0 else 1)"
| "fsign PosInf = 1"
| "fsign NegInf = - 1"
| "fsign NaN = 0"

definition inf_of_sign :: "int \<Rightarrow> pyfloat" where
  "inf_of_sign s = (if s = 0 then NaN else if s < 0 then NegInf else PosInf)"

fun fmul :: "pyfloat \<Rightarrow> pyfloat \<Rightarrow> pyfloat" where
  "fmul NaN _ = NaN"
| "fmul _ NaN = NaN"
| "fmul (Finite a) (Finite b) = Finite (a * b)"
| "fmul x y = inf_of_sign (fsign x * fsign y)"

text \<open>
  Python's \<open>/\<close> on floats raises \<open>ZeroDivisionError\<close> for a zero divisor (also for
  an infinite or \<open>NaN\<close> dividend); \<open>None\<close> is that exception.
\<close>

fun fdiv :: "pyfloat \<Rightarrow> pyfloat \<Rightarrow> pyfloat option" where
  "fdiv x (Finite b) =
     (if b = 0 then None
      else (case x of
              Finite a \<Rightarrow> Some (Finite (a / b))
            | NaN \<Rightarrow> Some NaN
            | _ \<Rightarrow> Some (inf_of_sign (fsign x * fsign (Finite b)))))"
| "fdiv NaN _ = Some NaN"
| "fdiv _ NaN = Some NaN"
| "fdiv (Finite a) _ = Some (Finite 0)"
| "fdiv _ _ = Some NaN"

text \<open>
  The builtins \<open>min(a, b)\<close> and \<open>max(a, b)\<close> keep the first argument unless the
  second compares strictly smaller (greater).
\<close>

definition py_min :: "pyfloat \<Rightarrow> pyfloat \<Rightarrow> pyfloat" where
  "py_min a b = (if flt b a then b else a)"

definition py_max :: "pyfloat \<Rightarrow> pyfloat \<Rightarrow> pyfloat" where
  "py_max a b = (if fgt b a then b else a)"

text \<open>
  \<open>round(x)\<close> with one argument rounds half to even and returns an \<open>int\<close>; it raises
  \<open>ValueError\<close> on \<open>NaN\<close> and \<open>OverflowError\<close> on an infinity (\<open>None\<close>).
\<close>

definition round_half_even :: "real \<Rightarrow> int" where
  "round_half_even x =
     (let f = \<lfloor>x\<rfloor>; d = x - of_int f in
      if d < 1 / 2 then f
      else if 1 / 2 < d then f + 1
      else if even f then f else f + 1)"

fun py_round :: "pyfloat \<Rightarrow> int option" where
  "py_round (Finite a) = Some (round_half_even a)"
| "py_round _ = None"

text \<open>\<open>int(x)\<close> truncates towards zero and raises on \<open>NaN\<close> and the infinities.\<close>

fun py_int :: "pyfloat \<Rightarrow> int option" where
  "py_int (Finite a) = Some (if 0 \<le> a then \<lfloor>a\<rfloor> else \<lceil>a\<rceil>)"
| "py_int _ = None"

abbreviation of_py_int :: "int \<Rightarrow> pyfloat" where
  "of_py_int n \<equiv> Finite (of_int n)"

section \<open>Configuration\<close>

text \<open>
  The class \<open>OracleConfig\<close>: the attributes the modelled functions read. The three
  connection settings come from the process environment, with the source's defaults
  when a variable is not set.
\<close>

record oracle_config =
  INDEX_BASELINE :: real
  MIN_FEE_RATE :: int
  MAX_FEE_RATE :: int
  DEFAULT_FEE_RATE :: int
  SESSION_DURATION_HOURS :: int
  MAX_RETRIES :: nat
  RETRY_DELAY :: nat
  RPC_URL :: string
  PRIVATE_KEY :: string
  CONTRACT_ADDRESS :: string
  CHAIN_ID :: int
  GAS_LIMIT :: int
  MAX_GAS_PRICE_GWEI :: int
  BLOCKCHAIN_RETRY_COUNT :: nat
  BLOCKCHAIN_RETRY_DELAY :: nat

definition os_getenv :: "(string \<rightharpoonup> string) \<Rightarrow> string \<Rightarrow> string \<Rightarrow> string" where
  "os_getenv env k d = (case env k of None \<Rightarrow> d | Some v \<Rightarrow> v)"

text \<open>
  \<open>CHAIN_ID\<close> is \<open>int(os.getenv('CHAIN_ID', '11155111'))\<close>; the parsed number is
  the argument \<open>chain_id\<close>.
\<close>

definition OracleConfig :: "(string \<rightharpoonup> string) \<Rightarrow> int \<Rightarrow> oracle_config" where
  "OracleConfig env chain_id =
     \<lparr> INDEX_BASELINE = 1500,
       MIN_FEE_RATE = 10,
       MAX_FEE_RATE = 100,
       DEFAULT_FEE_RATE = 50,
       SESSION_DURATION_HOURS = 168,
       MAX_RETRIES = 3,
       RETRY_DELAY = 60,
       RPC_URL = os_getenv env ''RPC_URL'' ''https://eth-sepolia.g.alchemy.com/v2/YOUR_API_KEY'',
       PRIVATE_KEY = os_getenv env ''ORACLE_PRIVATE_KEY'' '''',
       CONTRACT_ADDRESS = os_getenv env ''TRANSFERGUARD_ADDRESS'' '''',
       CHAIN_ID = chain_id,
       GAS_LIMIT = 200000,
       MAX_GAS_PRICE_GWEI = 50,
       BLOCKCHAIN_RETRY_COUNT = 3,
       BLOCKCHAIN_RETRY_DELAY = 30 \<rparr>"

section \<open>DynamicFeeCalculator\<close>

text \<open>
  The interpolation expression of \<open>calculate_fee_rate\<close>,
  \<open>max_fee - (index_value - lower_bound) * (max_fee - min_fee) / (upper_bound - lower_bound)\<close>;
  \<open>None\<close> is the \<open>ZeroDivisionError\<close> of the division.
\<close>

definition linear_fee :: "oracle_config \<Rightarrow> pyfloat \<Rightarrow> pyfloat option" where
  "linear_fee cfg index_value =
     (let baseline = Finite (INDEX_BASELINE cfg);
          min_fee = of_py_int (MIN_FEE_RATE cfg);
          max_fee = of_py_int (MAX_FEE_RATE cfg);
          lower_bound = fmul baseline (Finite 0.33);
          upper_bound = fmul baseline (Finite 2)
      in map_option (fsub max_fee)
           (fdiv (fmul (fsub index_value lower_bound) (fsub max_fee min_fee))
                 (fsub upper_bound lower_bound)))"

text \<open>
  \<open>calculate_fee_rate\<close>: every exception inside the \<open>try\<close> block is caught and
  answered with \<open>DEFAULT_FEE_RATE\<close>.
\<close>

definition calculate_fee_rate :: "oracle_config \<Rightarrow> pyfloat \<Rightarrow> int" where
  "calculate_fee_rate cfg index_value =
     (let baseline = Finite (INDEX_BASELINE cfg);
          min_fee = MIN_FEE_RATE cfg;
          max_fee = MAX_FEE_RATE cfg
      in if fle index_value (Finite 0) then DEFAULT_FEE_RATE cfg
         else if fge index_value (fmul baseline (Finite 2)) then min_fee
         else if fle index_value (fmul baseline (Finite 0.33)) then max_fee
         else (case linear_fee cfg index_value of
                 None \<Rightarrow> DEFAULT_FEE_RATE cfg
               | Some fee_rate \<Rightarrow>
                   (case py_round (py_max (of_py_int min_fee) (py_min (of_py_int max_fee) fee_rate)) of
                      None \<Rightarrow> DEFAULT_FEE_RATE cfg
                    | Some fee_rate_int \<Rightarrow>
                        (let r1 = (if fee_rate_int < min_fee then min_fee else fee_rate_int);
                             r2 = (if r1 > max_fee then max_fee else r1)
                         in r2))))"

text \<open>The market classification of \<open>get_fee_explanation\<close> (the variable \<open>trend\<close>).\<close>

definition fee_trend :: "oracle_config \<Rightarrow> pyfloat \<Rightarrow> string" where
  "fee_trend cfg index_value =
     (let baseline = Finite (INDEX_BASELINE cfg)
      in if fge index_value baseline then
           (if fge index_value (fmul baseline (Finite 1.5))
            then ''INDEX VERY HIGH -> Market excellent -> Min fee''
            else ''INDEX HIGH -> Market good -> Low fee'')
         else
           (if fle index_value (fmul baseline (Finite 0.5))
            then ''INDEX VERY LOW -> Market stressed -> Max fee''
            else ''INDEX LOW -> Market weak -> High fee''))"

text \<open>
  \<open>get_fee_explanation\<close>: the classification followed by the formatted numbers. The
  three format conversions of the f-string (\<open>{index_value}\<close>, \<open>{fee_rate/100:.2f}\<close>,
  \<open>{fee_rate}\<close>) are the record \<open>fmt\<close>.
\<close>

record formatter =
  fmt_float :: "pyfloat \<Rightarrow> string"
  fmt_percent :: "int \<Rightarrow> string"
  fmt_int :: "int \<Rightarrow> string"

definition get_fee_explanation :: "formatter \<Rightarrow> oracle_config \<Rightarrow> pyfloat \<Rightarrow> int \<Rightarrow> string" where
  "get_fee_explanation fmt cfg index_value fee_rate =
     fee_trend cfg index_value @ '' | Index: '' @ fmt_float fmt index_value
       @ '' | Fee: '' @ fmt_percent fmt fee_rate @ ''% ('' @ fmt_int fmt fee_rate @ '' bp)''"

text \<open>
  The configuration of a process that has none of the environment variables set.
\<close>

definition default_config :: oracle_config where
  "default_config = OracleConfig Map.empty 11155111"



section \<open>Level5AntiDetection\<close>

text \<open>
  A \<open>datetime\<close> is a number of microseconds (the resolution of Python's \<open>datetime\<close>
  and \<open>timedelta\<close>); a \<open>timedelta\<close> is a difference of two of them.
\<close>

type_synonym datetime = int
type_synonym timedelta = int

definition timedelta_hours :: "int \<Rightarrow> timedelta" where
  "timedelta_hours h = h * 3600 * 1000000"

record browser_combo =
  weight :: nat
  agents :: "string list"
  headers :: "(string \<times> string) list"

text \<open>The dictionary \<open>browser_combinations\<close>, in insertion order.\<close>

definition browser_combinations :: "(string \<times> browser_combo) list" where
  "browser_combinations =
   [(''chrome_windows'',
      \<lparr> weight = 45,
        agents =
          [''Mozilla/5.0 (Windows NT 10.0; Win64; x64) AppleWebKit/537.36 (KHTML, like Gecko) Chrome/120.0.0.0 Safari/537.36'',
           ''Mozilla/5.0 (Windows NT 10.0; Win64; x64) AppleWebKit/537.36 (KHTML, like Gecko) Chrome/119.0.0.0 Safari/537.36''],
        headers =
          [(''Accept'', ''text/html,application/xhtml+xml,application/xml;q=0.9,image/avif,image/webp,image/apng,*/*;q=0.8''),
           (''Accept-Language'', ''en-US,en;q=0.9''),
           (''Accept-Encoding'', ''gzip, deflate, br''),
           (''DNT'', ''1''),
           (''Connection'', ''keep-alive''),
           (''Upgrade-Insecure-Requests'', ''1'')] \<rparr>),
    (''safari_mac'',
      \<lparr> weight = 25,
        agents =
          [''Mozilla/5.0 (Macintosh; Intel Mac OS X 10_15_7) AppleWebKit/605.1.15 (KHTML, like Gecko) Version/17.1 Safari/605.1.15''],
        headers =
          [(''Accept'', ''text/html,application/xhtml+xml,application/xml;q=0.9,*/*;q=0.8''),
           (''Accept-Language'', ''en-US,en;q=0.9''),
           (''Accept-Encoding'', ''gzip, deflate, br''),
           (''DNT'', ''1''),
           (''Connection'', ''keep-alive'')] \<rparr>),
    (''firefox_windows'',
      \<lparr> weight = 20,
        agents =
          [''Mozilla/5.0 (Windows NT 10.0; Win64; x64; rv:121.0) Gecko/20100101 Firefox/121.0''],
        headers =
          [(''Accept'', ''text/html,application/xhtml+xml,application/xml;q=0.9,image/avif,image/webp,*/*;q=0.8''),
           (''Accept-Language'', ''en-US,en;q=0.5''),
           (''Accept-Encoding'', ''gzip, deflate, br''),
           (''DNT'', ''1''),
           (''Connection'', ''keep-alive'')] \<rparr>),
    (''edge_windows'',
      \<lparr> weight = 10,
        agents =
          [''Mozilla/5.0 (Windows NT 10.0; Win64; x64) AppleWebKit/537.36 (KHTML, like Gecko) Chrome/120.0.0.0 Safari/537.36 Edg/120.0.0.0''],
        headers =
          [(''Accept'', ''text/html,application/xhtml+xml,application/xml;q=0.9,image/webp,image/apng,*/*;q=0.8''),
           (''Accept-Language'', ''en-US,en;q=0.9''),
           (''Accept-Encoding'', ''gzip, deflate, br''),
           (''DNT'', ''1''),
           (''Connection'', ''keep-alive'')] \<rparr>)]"

text \<open>
  \<open>random.choice(seq)\<close>: the element at a random index below the length, here the
  draw \<open>r\<close> reduced modulo the length; \<open>IndexError\<close> (\<open>None\<close>) on an empty sequence.
\<close>

definition random_choice :: "nat \<Rightarrow> 'a list \<Rightarrow> 'a option" where
  "random_choice r xs = (if xs = [] then None else Some (xs ! (r mod length xs)))"

text \<open>\<open>d[k] = v\<close> on a dictionary kept in insertion order.\<close>

fun dict_set :: "('k \<times> 'v) list \<Rightarrow> 'k \<Rightarrow> 'v \<Rightarrow> ('k \<times> 'v) list" where
  "dict_set [] k v = [(k, v)]"
| "dict_set ((k', v') # d) k v = (if k' = k then (k, v) # d else (k', v') # dict_set d k v)"

text \<open>
  A \<open>requests.Session\<close> is represented by the headers that \<open>headers.update\<close> has
  written into it.
\<close>

record session =
  session_headers :: "(string \<times> string) list"

record anti_detection =
  current_session :: "session option"
  session_start_time :: "datetime option"
  session_duration :: timedelta

definition Level5AntiDetection :: "oracle_config \<Rightarrow> anti_detection" where
  "Level5AntiDetection cfg =
     \<lparr> current_session = None,
       session_start_time = None,
       session_duration = timedelta_hours (SESSION_DURATION_HOURS cfg) \<rparr>"

text \<open>
  What one call of \<open>get_session\<close> reads from outside: the clock at its start, the two
  random draws of \<open>_create_new_session\<close>, and the clock when the new session is stamped.
\<close>

record session_env =
  now_get :: datetime
  pick_combo :: nat
  pick_agent :: nat
  now_created :: datetime

definition select_browser_combination :: "nat \<Rightarrow> browser_combo option" where
  "select_browser_combination r =
     (let weighted_choices =
            concat (map (\<lambda>(combo_name, combo_data). replicate (weight combo_data) combo_name)
                        browser_combinations)
      in case random_choice r weighted_choices of
           None \<Rightarrow> None
         | Some selected_combo \<Rightarrow> map_of browser_combinations selected_combo)"

text \<open>
  \<open>_create_new_session\<close>. The result is the state after the call and whether the call
  returned (\<open>True\<close>) or raised; a raise after the assignment of the fresh session leaves
  that assignment in place.
\<close>

definition create_new_session :: "anti_detection \<Rightarrow> session_env \<Rightarrow> bool \<times> anti_detection" where
  "create_new_session st e =
     (case select_browser_combination (pick_combo e) of
        None \<Rightarrow> (False, st)
      | Some browser_combo \<Rightarrow>
          (let st1 = st\<lparr>current_session := Some \<lparr>session_headers = []\<rparr>\<rparr>
           in case random_choice (pick_agent e) (agents browser_combo) of
                None \<Rightarrow> (False, st1)
              | Some user_agent \<Rightarrow>
                  (let hs = dict_set (headers browser_combo) ''User-Agent'' user_agent
                   in (True, st1\<lparr>current_session := Some \<lparr>session_headers = hs\<rparr>,
                                  session_start_time := Some (now_created e)\<rparr>))))"

text \<open>
  \<open>get_session\<close>: \<open>None\<close> when \<open>_create_new_session\<close> raised, else the session
  returned; with the state after the call.
\<close>

definition get_session :: "anti_detection \<Rightarrow> session_env \<Rightarrow> session option \<times> anti_detection" where
  "get_session st e =
     (let now = now_get e;
          expired = (case (current_session st, session_start_time st) of
                       (Some s, Some t0) \<Rightarrow> now - t0 > session_duration st
                     | _ \<Rightarrow> True)
      in if expired
         then (case create_new_session st e of
                 (False, st') \<Rightarrow> (None, st')
               | (True, st') \<Rightarrow> (current_session st', st'))
         else (current_session st, st))"

section \<open>IndexExtractor\<close>

text \<open>
  \<open>str.strip()\<close> removes leading and trailing whitespace; \<open>replace(c, '')\<close> with a
  one-character \<open>c\<close> deletes every occurrence of it.
\<close>

definition is_space :: "char \<Rightarrow> bool" where
  "is_space c = (c \<in> set [CHR '' '', CHR 0x09, CHR 0x0A, CHR 0x0B, CHR 0x0C, CHR 0x0D,
                            CHR 0x1C, CHR 0x1D, CHR 0x1E, CHR 0x1F])"

definition strip :: "string \<Rightarrow> string" where
  "strip s = rev (dropWhile is_space (rev (dropWhile is_space s)))"

definition remove_char :: "char \<Rightarrow> string \<Rightarrow> string" where
  "remove_char c s = filter (\<lambda>x. x \<noteq> c) s"

text \<open>
  What one attempt of the retry loop reads from outside: the random delay, the clock and
  random draws of \<open>get_session\<close>, and the answer of the web server. \<open>response = None\<close>
  is an exception of \<open>session.get\<close> (timeout, connection error); \<open>status_ok\<close> is
  whether \<open>raise_for_status\<close> returns; \<open>element_text\<close> is the text of the
  \<open>td\<close> element with the configured id, \<open>None\<close> when \<open>soup.find\<close> finds none.
\<close>

record http_response =
  status_ok :: bool
  element_text :: "string option"

record fetch_env =
  human_delay :: real
  session_reads :: session_env
  response :: "http_response option"

datatype fetch_event =
    HumanDelay real
  | HttpGet session
  | RetrySleep nat

text \<open>
  The part of one attempt after the response has arrived (lines 482 to 500): \<open>None\<close>
  when any step raises. \<open>to_float\<close> is the builtin \<open>float\<close> on strings, \<open>None\<close> its
  \<open>ValueError\<close>.
\<close>

definition parse_response :: "(string \<Rightarrow> pyfloat option) \<Rightarrow> http_response \<Rightarrow> (pyfloat \<times> string) option" where
  "parse_response to_float r =
     (if \<not> status_ok r then None
      else (case element_text r of
              None \<Rightarrow> None
            | Some txt \<Rightarrow>
                (let index_text = strip txt;
                     index_clean = remove_char CHR '' '' (remove_char CHR '','' index_text)
                 in case to_float index_clean of
                      None \<Rightarrow> None
                    | Some index_value \<Rightarrow> Some (index_value, index_text))))"

text \<open>
  The body of the \<open>try\<close> block of \<open>extract_index_with_retry\<close>: the value returned, or
  \<open>None\<close> when the body raised; the state of the anti-detection object afterwards; the
  delays and requests made.
\<close>

definition extract_attempt ::
  "(string \<Rightarrow> pyfloat option) \<Rightarrow> fetch_env \<Rightarrow> anti_detection
     \<Rightarrow> (pyfloat \<times> string) option \<times> anti_detection \<times> fetch_event list" where
  "extract_attempt to_float e st =
     (case get_session st (session_reads e) of
        (None, st') \<Rightarrow> (None, st', [HumanDelay (human_delay e)])
      | (Some session, st') \<Rightarrow>
          (case response e of
             None \<Rightarrow> (None, st', [HumanDelay (human_delay e), HttpGet session])
           | Some r \<Rightarrow> (parse_response to_float r, st', [HumanDelay (human_delay e), HttpGet session])))"

text \<open>
  The loop \<open>for attempt in range(MAX_RETRIES)\<close>, over the list of the remaining values
  of \<open>attempt\<close>. \<open>env attempt\<close> is what the attempt reads from outside.
\<close>

fun extract_loop ::
  "oracle_config \<Rightarrow> (string \<Rightarrow> pyfloat option) \<Rightarrow> (nat \<Rightarrow> fetch_env) \<Rightarrow> nat list \<Rightarrow> anti_detection
     \<Rightarrow> (pyfloat \<times> string) option \<times> anti_detection \<times> fetch_event list" where
  "extract_loop cfg to_float env [] st = (None, st, [])"
| "extract_loop cfg to_float env (attempt # rest) st =
     (case extract_attempt to_float (env attempt) st of
        (Some result, st', evs) \<Rightarrow> (Some result, st', evs)
      | (None, st', evs) \<Rightarrow>
          (let evs' = evs @ (if int attempt < int (MAX_RETRIES cfg) - 1
                             then [RetrySleep (RETRY_DELAY cfg)] else [])
           in case extract_loop cfg to_float env rest st' of
                (result, st'', evs'') \<Rightarrow> (result, st'', evs' @ evs'')))"

definition extract_index_with_retry ::
  "oracle_config \<Rightarrow> (string \<Rightarrow> pyfloat option) \<Rightarrow> (nat \<Rightarrow> fetch_env) \<Rightarrow> anti_detection
     \<Rightarrow> (pyfloat \<times> string) option \<times> anti_detection \<times> fetch_event list" where
  "extract_index_with_retry cfg to_float env st =
     extract_loop cfg to_float env [0..<MAX_RETRIES cfg] st"

text \<open>The requests among the events of a run of the loop.\<close>

fun is_HttpGet :: "fetch_event \<Rightarrow> bool" where
  "is_HttpGet (HttpGet _) = True"
| "is_HttpGet _ = False"

fun is_HumanDelay :: "fetch_event \<Rightarrow> bool" where
  "is_HumanDelay (HumanDelay _) = True"
| "is_HumanDelay _ = False"

text \<open>
  The outcome of attempt number \<open>i\<close> as far as the server's answer decides it.
\<close>

definition attempt_outcome ::
  "(string \<Rightarrow> pyfloat option) \<Rightarrow> (nat \<Rightarrow> fetch_env) \<Rightarrow> nat \<Rightarrow> (pyfloat \<times> string) option" where
  "attempt_outcome to_float env i =
     (case response (env i) of None \<Rightarrow> None | Some r \<Rightarrow> parse_response to_float r)"

section \<open>BlockchainBridge\<close>

text \<open>The substring test \<open>sub in s\<close>.\<close>

fun starts_with :: "string \<Rightarrow> string \<Rightarrow> bool" where
  "starts_with [] s = True"
| "starts_with (p # ps) [] = False"
| "starts_with (p # ps) (c # cs) = (p = c \<and> starts_with ps cs)"

fun py_in :: "string \<Rightarrow> string \<Rightarrow> bool" where
  "py_in sub [] = (sub = [])"
| "py_in sub (c # cs) = (starts_with sub (c # cs) \<or> py_in sub cs)"

text \<open>
  The calls that reach the network or the chain, and the log lines the claims speak of,
  in the order in which the bridge makes them.
\<close>

record transaction =
  tx_newFeeRate :: int
  tx_indexValue :: int
  tx_from :: string
  tx_gas :: int
  tx_gasPrice :: int
  tx_nonce :: int
  tx_chainId :: int

datatype chain_event =
    IsConnected
  | ReadGasPrice
  | WarnGasPriceTooHigh int
  | ReadNonce
  | BuildTransaction transaction
  | SignTransaction
  | SendRawTransaction
  | WaitForReceipt
  | WarnNoReceipt
  | ChainSleep nat

record bridge =
  enabled :: bool
  account_address :: "string option"

text \<open>
  What \<open>_initialize_web3\<close> reads from outside: the answer of \<open>is_connected\<close>
  (\<open>None\<close> when it raises), the address \<open>Account.from_key\<close> derives from the key
  (\<open>None\<close> when the key is refused), and whether building the contract object with the
  checksummed address succeeds.
\<close>

record init_env =
  is_connected :: "bool option"
  from_key :: "string option"
  contract_ok :: bool

definition initialize_web3 :: "oracle_config \<Rightarrow> init_env \<Rightarrow> bridge \<times> chain_event list" where
  "initialize_web3 cfg ie =
     (let disabled = \<lparr> enabled = False, account_address = None \<rparr> in
      if RPC_URL cfg = [] \<or> py_in ''YOUR_API_KEY'' (RPC_URL cfg) then (disabled, [])
      else if PRIVATE_KEY cfg = [] then (disabled, [])
      else if CONTRACT_ADDRESS cfg = [] then (disabled, [])
      else (case is_connected ie of
              None \<Rightarrow> (disabled, [IsConnected])
            | Some False \<Rightarrow> (disabled, [IsConnected])
            | Some True \<Rightarrow>
                (case from_key ie of
                   None \<Rightarrow> (disabled, [IsConnected])
                 | Some address \<Rightarrow>
                     if contract_ok ie
                     then (\<lparr> enabled = True, account_address = Some address \<rparr>, [IsConnected])
                     else (\<lparr> enabled = False, account_address = Some address \<rparr>, [IsConnected]))))"

text \<open>\<open>BlockchainBridge.__init__\<close>; \<open>web3_available\<close> is the module flag \<open>WEB3_AVAILABLE\<close>.\<close>

definition BlockchainBridge :: "bool \<Rightarrow> oracle_config \<Rightarrow> init_env \<Rightarrow> bridge \<times> chain_event list" where
  "BlockchainBridge web3_available cfg ie =
     (if \<not> web3_available then (\<lparr> enabled = False, account_address = None \<rparr>, [])
      else initialize_web3 cfg ie)"

text \<open>
  What one attempt of \<open>send_fee_update\<close> reads from outside, each \<open>None\<close> or
  \<open>False\<close> being an exception of the call: the gas price of the network, whether the
  contract function accepts the two arguments, the transaction count of the account,
  whether \<open>build_transaction\<close> and \<open>sign_transaction\<close> succeed, the hash (in hex)
  that \<open>send_raw_transaction\<close> returns, and the receipt \<open>wait_for_transaction_receipt\<close>
  returns within its timeout.
\<close>

record receipt =
  status :: int
  blockNumber :: int

record chain_env =
  gas_price :: "int option"
  call_ok :: bool
  transaction_count :: "int option"
  build_ok :: bool
  sign_ok :: bool
  send_raw :: "string option"
  wait_receipt :: "receipt option"

definition to_wei_gwei :: "int \<Rightarrow> int" where
  "to_wei_gwei n = n * 1000000000"

text \<open>The outcome of the body of the outer \<open>try\<close>: it raised, or it returned a value.\<close>

datatype attempt_result = Raised | Returned "string option"

definition send_attempt ::
  "oracle_config \<Rightarrow> bridge \<Rightarrow> chain_env \<Rightarrow> int \<Rightarrow> pyfloat \<Rightarrow> attempt_result \<times> chain_event list" where
  "send_attempt cfg b ce fee_rate index_value =
     (case py_int index_value of
        None \<Rightarrow> (Raised, [])
      | Some index_value_int \<Rightarrow>
     (case gas_price ce of
        None \<Rightarrow> (Raised, [ReadGasPrice])
      | Some gp \<Rightarrow>
     (let max_gas_price = to_wei_gwei (MAX_GAS_PRICE_GWEI cfg);
          evs1 = [ReadGasPrice] @ (if gp > max_gas_price then [WarnGasPriceTooHigh gp] else [])
      in if \<not> call_ok ce then (Raised, evs1)
      else
     (case account_address b of
        None \<Rightarrow> (Raised, evs1)
      | Some address \<Rightarrow>
     (case transaction_count ce of
        None \<Rightarrow> (Raised, evs1 @ [ReadNonce])
      | Some n \<Rightarrow>
     (let tx = \<lparr> tx_newFeeRate = fee_rate,
                 tx_indexValue = index_value_int,
                 tx_from = address,
                 tx_gas = GAS_LIMIT cfg,
                 tx_gasPrice = min gp max_gas_price,
                 tx_nonce = n,
                 tx_chainId = CHAIN_ID cfg \<rparr>;
          evs2 = evs1 @ [ReadNonce, BuildTransaction tx]
      in if \<not> build_ok ce then (Raised, evs2)
      else if \<not> sign_ok ce then (Raised, evs2 @ [SignTransaction])
      else
     (case send_raw ce of
        None \<Rightarrow> (Raised, evs2 @ [SignTransaction, SendRawTransaction])
      | Some tx_hash_hex \<Rightarrow>
     (let evs3 = evs2 @ [SignTransaction, SendRawTransaction, WaitForReceipt]
      in case wait_receipt ce of
           None \<Rightarrow> (Returned (Some tx_hash_hex), evs3 @ [WarnNoReceipt])
         | Some r \<Rightarrow>
             if status r = 1 then (Returned (Some tx_hash_hex), evs3)
             else (Returned None, evs3)))))))))"

text \<open>The loop \<open>for attempt in range(BLOCKCHAIN_RETRY_COUNT)\<close>.\<close>

fun send_loop ::
  "oracle_config \<Rightarrow> bridge \<Rightarrow> (nat \<Rightarrow> chain_env) \<Rightarrow> nat list \<Rightarrow> int \<Rightarrow> pyfloat
     \<Rightarrow> string option \<times> chain_event list" where
  "send_loop cfg b env [] fee_rate index_value = (None, [])"
| "send_loop cfg b env (attempt # rest) fee_rate index_value =
     (case send_attempt cfg b (env attempt) fee_rate index_value of
        (Returned r, evs) \<Rightarrow> (r, evs)
      | (Raised, evs) \<Rightarrow>
          (let evs' = evs @ (if int attempt < int (BLOCKCHAIN_RETRY_COUNT cfg) - 1
                             then [ChainSleep (BLOCKCHAIN_RETRY_DELAY cfg)] else [])
           in case send_loop cfg b env rest fee_rate index_value of
                (r, evs'') \<Rightarrow> (r, evs' @ evs'')))"

definition send_fee_update ::
  "oracle_config \<Rightarrow> bridge \<Rightarrow> (nat \<Rightarrow> chain_env) \<Rightarrow> int \<Rightarrow> pyfloat
     \<Rightarrow> string option \<times> chain_event list" where
  "send_fee_update cfg b env fee_rate index_value =
     (if \<not> enabled b then (None, [])
      else send_loop cfg b env [0..<BLOCKCHAIN_RETRY_COUNT cfg] fee_rate index_value)"

section \<open>IndexOracleSystem\<close>

text \<open>
  The dictionary \<open>data_record\<close> handed to \<open>DataStorageManager.save_oracle_data\<close>. The
  timestamp is the clock value whose ISO format the source stores.
\<close>

record data_record =
  timestamp :: datetime
  index_value :: pyfloat
  index_text :: string
  fee_rate_bp :: int
  fee_rate_percent :: real
  fee_explanation :: string
  extraction_method :: string
  session_age_minutes :: real
  blockchain_tx_hash :: string
  blockchain_status :: string

record oracle_system =
  anti_detection_state :: anti_detection
  blockchain_bridge :: bridge

definition IndexOracleSystem :: "bool \<Rightarrow> oracle_config \<Rightarrow> init_env \<Rightarrow> oracle_system" where
  "IndexOracleSystem web3_available cfg ie =
     \<lparr> anti_detection_state = Level5AntiDetection cfg,
       blockchain_bridge = fst (BlockchainBridge web3_available cfg ie) \<rparr>"

text \<open>
  What one run reads from outside: the reads of the extraction attempts and of the commit
  attempts, the clock for the session age and for the timestamp, and whether the display
  of the recent history (step 7, after the record is saved) completes.
\<close>

record run_env =
  fetch_reads :: "nat \<Rightarrow> fetch_env"
  chain_reads :: "nat \<Rightarrow> chain_env"
  now_age :: datetime
  now_timestamp :: datetime
  display_ok :: bool

text \<open>
  \<open>run_oracle_update\<close>: the value returned, the system afterwards, the records handed
  to \<open>save_oracle_data\<close> during the run, and the calls of the bridge.
\<close>

definition run_oracle_update ::
  "oracle_config \<Rightarrow> formatter \<Rightarrow> (string \<Rightarrow> pyfloat option) \<Rightarrow> oracle_system \<Rightarrow> run_env
     \<Rightarrow> bool \<times> oracle_system \<times> data_record list \<times> chain_event list" where
  "run_oracle_update cfg fmt to_float sys env =
     (case extract_index_with_retry cfg to_float (fetch_reads env) (anti_detection_state sys) of
        (None, st', _) \<Rightarrow> (False, sys\<lparr>anti_detection_state := st'\<rparr>, [], [])
      | (Some (idx_value, idx_text), st', _) \<Rightarrow>
          (let sys' = sys\<lparr>anti_detection_state := st'\<rparr>;
               fee_rate = calculate_fee_rate cfg idx_value;
               explanation = get_fee_explanation fmt cfg idx_value fee_rate;
               (tx_hash, tx_status, evs) =
                 (if enabled (blockchain_bridge sys)
                  then (case send_fee_update cfg (blockchain_bridge sys) (chain_reads env) fee_rate idx_value of
                          (h, evs) \<Rightarrow>
                            (h, if h \<noteq> None \<and> h \<noteq> Some [] then ''success'' else ''failed'', evs))
                  else (None, ''disabled'', []));
               session_age =
                 (case session_start_time st' of
                    None \<Rightarrow> 0
                  | Some t0 \<Rightarrow> real_of_int (now_age env - t0) / 1000000 / 60);
               data_record =
                 \<lparr> timestamp = now_timestamp env,
                   index_value = idx_value,
                   index_text = idx_text,
                   fee_rate_bp = fee_rate,
                   fee_rate_percent = real_of_int fee_rate / 100,
                   fee_explanation = explanation,
                   extraction_method = ''Level5_Oracle_Production_Blockchain'',
                   session_age_minutes = session_age,
                   blockchain_tx_hash = (case tx_hash of None \<Rightarrow> [] | Some h \<Rightarrow> h),
                   blockchain_status = tx_status \<rparr>
           in (display_ok env, sys', [data_record], evs)))"

section \<open>Example environments\<close>

text \<open>
  Concrete surroundings for the closed examples below: a process environment with the
  three connection settings present, a node that answers, a web server that serves the
  index, and one that does not.
\<close>

definition configured_config :: oracle_config where
  "configured_config =
     OracleConfig (map_of [(''RPC_URL'', ''https://rpc.example.org''),
                           (''ORACLE_PRIVATE_KEY'', ''k''),
                           (''TRANSFERGUARD_ADDRESS'', ''0xC0'')]) 11155111"

definition reachable_node :: init_env where
  "reachable_node = \<lparr> is_connected = Some True, from_key = Some ''0xA0'', contract_ok = True \<rparr>"

definition example_to_float :: "string \<Rightarrow> pyfloat option" where
  "example_to_float s = (if s = ''1500.0'' then Some (Finite 1500) else None)"

definition example_formatter :: formatter where
  "example_formatter = \<lparr> fmt_float = (\<lambda>x. ''1500.0''), fmt_percent = (\<lambda>n. ''0.64''), fmt_int = (\<lambda>n. ''64'') \<rparr>"

definition first_reads :: session_env where
  "first_reads = \<lparr> now_get = 0, pick_combo = 0, pick_agent = 0, now_created = 0 \<rparr>"

definition serving_fetch :: fetch_env where
  "serving_fetch =
     \<lparr> human_delay = 5, session_reads = first_reads,
       response = Some \<lparr> status_ok = True, element_text = Some '' 1,500.0 '' \<rparr> \<rparr>"

definition failing_fetch :: fetch_env where
  "failing_fetch = \<lparr> human_delay = 5, session_reads = first_reads, response = None \<rparr>"

definition confirming_chain :: chain_env where
  "confirming_chain =
     \<lparr> gas_price = Some 80000000000, call_ok = True, transaction_count = Some 7,
       build_ok = True, sign_ok = True, send_raw = Some ''0xabc'',
       wait_receipt = Some \<lparr> status = 1, blockNumber = 100 \<rparr> \<rparr>"

definition silent_chain :: chain_env where
  "silent_chain = confirming_chain \<lparr> wait_receipt := None \<rparr>"

definition flaky_fetch :: "nat \<Rightarrow> fetch_env" where
  "flaky_fetch i = (if i < 2 then failing_fetch else serving_fetch)"

definition flaky_chain :: "nat \<Rightarrow> chain_env" where
  "flaky_chain i = (if i = 0 then silent_chain \<lparr> gas_price := None \<rparr> else silent_chain)"

definition example_run :: "(nat \<Rightarrow> fetch_env) \<Rightarrow> (nat \<Rightarrow> chain_env) \<Rightarrow> run_env" where
  "example_run f c =
     \<lparr> fetch_reads = f, chain_reads = c,
       now_age = 60000000, now_timestamp = 60000000, display_ok = True \<rparr>"

text \<open>
  A session created at time 0 by a process with the default lifetime of 168 hours, and
  the reads of a call of \<open>get_session\<close> exactly 168 hours later.
\<close>

definition week_old_state :: anti_detection where
  "week_old_state = snd (get_session (Level5AntiDetection default_config) first_reads)"

definition reads_after_a_week :: session_env where
  "reads_after_a_week =
     \<lparr> now_get = 604800000000, pick_combo = 50, pick_agent = 0, now_created = 604800000000 \<rparr>"

section \<open>Rounding\<close>








lemma round_half_even_ties:
  "round_half_even (98.5) = 98" "round_half_even (97.5) = 98"
  by (simp_all add: round_half_even_def Let_def)

section \<open>The fee calculation on finite index values\<close>

lemmas fee_eval = calculate_fee_rate_def linear_fee_def Let_def fge_def fgt_def fsub_def
  py_min_def py_max_def round_half_even_def OracleConfig_def default_config_def os_getenv_def





















lemma fee_rate_in_range_gen:
  assumes "MIN_FEE_RATE cfg \<le> MAX_FEE_RATE cfg"
    and "MIN_FEE_RATE cfg \<le> DEFAULT_FEE_RATE cfg" and "DEFAULT_FEE_RATE cfg \<le> MAX_FEE_RATE cfg"
  shows "MIN_FEE_RATE cfg \<le> calculate_fee_rate cfg x \<and> calculate_fee_rate cfg x \<le> MAX_FEE_RATE cfg"
  using assms unfolding calculate_fee_rate_def Let_def
  by (auto split: option.splits)

section \<open>The claims about the fee calculation\<close>

text \<open>
  C3. With the source's configuration (baseline 1500, minimum 10, maximum 100, default 50)
  the fee rate computed for the baseline index value 1500 is 64: the interpolation runs
  over the whole interval from 495 to 3000, whose midpoint is not the baseline. The value
  50 of the claim, which the comment above the formula also promises, is not what the
  function returns.
\<close>

theorem baseline_fee_is_64:
  "calculate_fee_rate (OracleConfig env chain_id) (Finite 1500) = 64
   \<and> INDEX_BASELINE (OracleConfig env chain_id) = 1500
   \<and> DEFAULT_FEE_RATE (OracleConfig env chain_id) = 50"
  by (simp add: fee_eval)

text \<open>
  C4. With the source's configuration the result of \<open>calculate_fee_rate\<close> lies between
  \<open>MIN_FEE_RATE\<close> and \<open>MAX_FEE_RATE\<close> for every input of type float (finite, infinite
  or not a number), and an input that is not above zero is answered with
  \<open>DEFAULT_FEE_RATE\<close>, which lies in that range too.
\<close>

theorem fee_rate_in_range:
  "MIN_FEE_RATE (OracleConfig env chain_id) \<le> calculate_fee_rate (OracleConfig env chain_id) x
   \<and> calculate_fee_rate (OracleConfig env chain_id) x \<le> MAX_FEE_RATE (OracleConfig env chain_id)
   \<and> MIN_FEE_RATE (OracleConfig env chain_id) \<le> DEFAULT_FEE_RATE (OracleConfig env chain_id)
   \<and> DEFAULT_FEE_RATE (OracleConfig env chain_id) \<le> MAX_FEE_RATE (OracleConfig env chain_id)
   \<and> (if fle x (Finite 0)
      then calculate_fee_rate (OracleConfig env chain_id) x = DEFAULT_FEE_RATE (OracleConfig env chain_id)
      else True)"
proof -
  have c: "MIN_FEE_RATE (OracleConfig env chain_id) \<le> MAX_FEE_RATE (OracleConfig env chain_id)"
    "MIN_FEE_RATE (OracleConfig env chain_id) \<le> DEFAULT_FEE_RATE (OracleConfig env chain_id)"
    "DEFAULT_FEE_RATE (OracleConfig env chain_id) \<le> MAX_FEE_RATE (OracleConfig env chain_id)"
    by (simp_all add: OracleConfig_def)
  from fee_rate_in_range_gen[OF c] c show ?thesis
    by (simp add: calculate_fee_rate_def)
qed




text \<open>
  C10. For a positive baseline, an index value equal to the baseline is classified on
  the high side: the explanation starts with \<open>INDEX HIGH -> Market good -> Low fee\<close>.
\<close>

theorem baseline_is_high:
  assumes "0 < INDEX_BASELINE cfg"
  shows "fee_trend cfg (Finite (INDEX_BASELINE cfg)) = ''INDEX HIGH -> Market good -> Low fee''
    \<and> get_fee_explanation fmt cfg (Finite (INDEX_BASELINE cfg)) fee_rate =
        ''INDEX HIGH -> Market good -> Low fee'' @ '' | Index: ''
          @ fmt_float fmt (Finite (INDEX_BASELINE cfg))
          @ '' | Fee: '' @ fmt_percent fmt fee_rate @ ''% ('' @ fmt_int fmt fee_rate @ '' bp)''"
  using assms by (simp add: get_fee_explanation_def fee_trend_def fge_def Let_def)

theorem baseline_is_high_witness:
  "0 < INDEX_BASELINE default_config
   \<and> fee_trend default_config (Finite 1500) = ''INDEX HIGH -> Market good -> Low fee''"
proof -
  have h: "0 < INDEX_BASELINE default_config" by (simp add: default_config_def OracleConfig_def)
  have "INDEX_BASELINE default_config = 1500" by (simp add: default_config_def OracleConfig_def)
  then show ?thesis using h baseline_is_high[OF h] by simp
qed

section \<open>Sessions\<close>

lemma weighted_choices_set:
  "set (concat (map (\<lambda>(combo_name, combo_data). replicate (weight combo_data) combo_name)
                   browser_combinations))
     = {''chrome_windows'', ''safari_mac'', ''firefox_windows'', ''edge_windows''}"
  unfolding browser_combinations_def by auto

lemma weighted_choices_length:
  "length (concat (map (\<lambda>(combo_name, combo_data). replicate (weight combo_data) combo_name)
                   browser_combinations)) = 100"
  unfolding browser_combinations_def by simp

lemma random_choice_nonempty:
  "xs \<noteq> [] \<Longrightarrow> random_choice r xs = Some (xs ! (r mod length xs))"
  by (simp add: random_choice_def)

lemma select_total:
  "\<exists>c. select_browser_combination r = Some c \<and> agents c \<noteq> []"
proof -
  let ?w = "concat (map (\<lambda>(combo_name, combo_data). replicate (weight combo_data) combo_name)
                   browser_combinations)"
  have "length ?w = 100" by (rule weighted_choices_length)
  then have ne: "?w \<noteq> []" by (metis list.size(3) zero_neq_numeral)
  then have "?w ! (r mod length ?w) \<in> set ?w"
    by (intro nth_mem) simp
  then have m: "?w ! (r mod length ?w)
      \<in> {''chrome_windows'', ''safari_mac'', ''firefox_windows'', ''edge_windows''}"
    unfolding weighted_choices_set .
  have k: "\<And>n. n \<in> {''chrome_windows'', ''safari_mac'', ''firefox_windows'', ''edge_windows''}
      \<Longrightarrow> \<exists>c. map_of browser_combinations n = Some c \<and> agents c \<noteq> []"
    unfolding browser_combinations_def by auto
  have "select_browser_combination r = map_of browser_combinations (?w ! (r mod length ?w))"
    unfolding select_browser_combination_def Let_def random_choice_nonempty[OF ne]
    by (simp only: option.case)
  then show ?thesis using k[OF m] by simp
qed

lemma create_ok:
  "\<exists>c ua. select_browser_combination (pick_combo e) = Some c
     \<and> random_choice (pick_agent e) (agents c) = Some ua
     \<and> create_new_session st e =
         (True, st\<lparr>current_session := Some \<lparr>session_headers = dict_set (headers c) ''User-Agent'' ua\<rparr>,
                    session_start_time := Some (now_created e)\<rparr>)"
proof -
  obtain c where c: "select_browser_combination (pick_combo e) = Some c" "agents c \<noteq> []"
    using select_total by blast
  then show ?thesis
    unfolding create_new_session_def Let_def random_choice_def by simp
qed

lemma get_session_Some: "\<exists>s st'. get_session st e = (Some s, st')"
proof -
  obtain s' where "create_new_session st e =
      (True, st\<lparr>current_session := Some s', session_start_time := Some (now_created e)\<rparr>)"
    using create_ok[of e st] by blast
  then show ?thesis
    unfolding get_session_def Let_def
    by (auto split: option.splits)
qed

lemma get_session_keep:
  assumes "current_session st = Some s" "session_start_time st = Some t0"
    and "now_get e - t0 \<le> session_duration st"
  shows "get_session st e = (Some s, st)"
  using assms unfolding get_session_def Let_def by simp

lemma get_session_rotate:
  assumes "current_session st = None \<or> session_start_time st = None
     \<or> (\<exists>t0. session_start_time st = Some t0 \<and> session_duration st < now_get e - t0)"
  shows "\<exists>c ua. select_browser_combination (pick_combo e) = Some c
     \<and> random_choice (pick_agent e) (agents c) = Some ua
     \<and> get_session st e =
         (Some \<lparr>session_headers = dict_set (headers c) ''User-Agent'' ua\<rparr>,
          st\<lparr>current_session := Some \<lparr>session_headers = dict_set (headers c) ''User-Agent'' ua\<rparr>,
             session_start_time := Some (now_created e)\<rparr>)"
proof -
  obtain c ua where c: "select_browser_combination (pick_combo e) = Some c"
    "random_choice (pick_agent e) (agents c) = Some ua"
    "create_new_session st e =
         (True, st\<lparr>current_session := Some \<lparr>session_headers = dict_set (headers c) ''User-Agent'' ua\<rparr>,
                    session_start_time := Some (now_created e)\<rparr>)"
    using create_ok[of e st] by blast
  have "get_session st e = (Some \<lparr>session_headers = dict_set (headers c) ''User-Agent'' ua\<rparr>,
          st\<lparr>current_session := Some \<lparr>session_headers = dict_set (headers c) ''User-Agent'' ua\<rparr>,
             session_start_time := Some (now_created e)\<rparr>)"
    using assms c(3) unfolding get_session_def Let_def
    by (auto split: option.splits)
  then show ?thesis using c(1,2) by blast
qed

text \<open>
  C9, as amended. A call of \<open>get_session\<close> returns the stored session and leaves the
  state as it is when a session is stored and its age is at most the configured lifetime
  (an age exactly equal to the lifetime included); otherwise (no session, no start time,
  or an age above the lifetime) it constructs a new session from the two random draws,
  stores it with the creation time, and returns it.
\<close>

theorem get_session_rotation:
  "(case (current_session st, session_start_time st) of
      (Some s, Some t0) \<Rightarrow>
        (if now_get e - t0 \<le> session_duration st
         then get_session st e = (Some s, st)
         else (\<exists>c ua. select_browser_combination (pick_combo e) = Some c
                \<and> random_choice (pick_agent e) (agents c) = Some ua
                \<and> get_session st e =
                    (Some \<lparr>session_headers = dict_set (headers c) ''User-Agent'' ua\<rparr>,
                     st\<lparr>current_session := Some \<lparr>session_headers = dict_set (headers c) ''User-Agent'' ua\<rparr>,
                        session_start_time := Some (now_created e)\<rparr>)))
    | _ \<Rightarrow>
        (\<exists>c ua. select_browser_combination (pick_combo e) = Some c
                \<and> random_choice (pick_agent e) (agents c) = Some ua
                \<and> get_session st e =
                    (Some \<lparr>session_headers = dict_set (headers c) ''User-Agent'' ua\<rparr>,
                     st\<lparr>current_session := Some \<lparr>session_headers = dict_set (headers c) ''User-Agent'' ua\<rparr>,
                        session_start_time := Some (now_created e)\<rparr>)))"
proof (cases "current_session st")
  case None
  then show ?thesis using get_session_rotate[of st e] by simp
next
  case s: (Some s)
  show ?thesis
  proof (cases "session_start_time st")
    case None
    then show ?thesis using s get_session_rotate[of st e] by simp
  next
    case t: (Some t0)
    show ?thesis
    proof (cases "now_get e - t0 \<le> session_duration st")
      case True
      then show ?thesis using s t get_session_keep[of st s t0 e] by simp
    next
      case False
      then have "session_duration st < now_get e - t0" by simp
      then show ?thesis using s t False get_session_rotate[of st e] by simp
    qed
  qed
qed

text \<open>
  The claim C9 as stated fails at an age exactly equal to the lifetime: the age is not
  below the lifetime, yet the stored session is returned and nothing new is stored.
\<close>

theorem session_kept_at_exact_lifetime_counterexample:
  "session_start_time week_old_state = Some 0
   \<and> session_duration week_old_state = 604800000000
   \<and> now_get reads_after_a_week - 0 = session_duration week_old_state
   \<and> \<not> now_get reads_after_a_week - 0 < session_duration week_old_state
   \<and> current_session week_old_state \<noteq> None
   \<and> get_session week_old_state reads_after_a_week = (current_session week_old_state, week_old_state)
   \<and> session_start_time (snd (get_session week_old_state reads_after_a_week))
        \<noteq> Some (now_created reads_after_a_week)
   \<and> snd (create_new_session week_old_state reads_after_a_week) \<noteq> week_old_state"
  by code_simp

section \<open>The retry loop of the extractor\<close>

lemma extract_attempt_fst:
  "fst (extract_attempt to_float (env i) st) = attempt_outcome to_float env i"
proof -
  obtain s st' where "get_session st (session_reads (env i)) = (Some s, st')"
    using get_session_Some by blast
  then show ?thesis
    unfolding extract_attempt_def attempt_outcome_def by (simp split: option.splits)
qed

lemma extract_attempt_events:
  "length (filter is_HttpGet (snd (snd (extract_attempt to_float e st)))) = 1
   \<and> length (filter is_HumanDelay (snd (snd (extract_attempt to_float e st)))) = 1"
proof -
  obtain s st' where "get_session st (session_reads e) = (Some s, st')"
    using get_session_Some by blast
  then show ?thesis
    unfolding extract_attempt_def by (simp split: option.splits)
qed

lemma extract_loop_result:
  "fst (extract_loop cfg to_float env xs st) =
     (case find (\<lambda>i. attempt_outcome to_float env i \<noteq> None) xs of
        None \<Rightarrow> None
      | Some i \<Rightarrow> attempt_outcome to_float env i)"
proof (induction xs arbitrary: st)
  case Nil
  then show ?case by simp
next
  case (Cons a xs)
  obtain r st' evs where a: "extract_attempt to_float (env a) st = (r, st', evs)"
    by (cases "extract_attempt to_float (env a) st") auto
  then have r: "attempt_outcome to_float env a = r"
    using extract_attempt_fst[of to_float env a st] by simp
  show ?case
  proof (cases r)
    case None
    then show ?thesis using a r Cons.IH[of st']
      by (auto simp: Let_def split: prod.splits)
  next
    case (Some res)
    then show ?thesis using a r by simp
  qed
qed

lemma extract_loop_count:
  "length (filter is_HttpGet (snd (snd (extract_loop cfg to_float env xs st))))
     = length (takeWhile (\<lambda>i. attempt_outcome to_float env i = None) xs)
       + (if fst (extract_loop cfg to_float env xs st) = None then 0 else 1)"
proof (induction xs arbitrary: st)
  case Nil
  then show ?case by simp
next
  case (Cons a xs)
  obtain r st' evs where a: "extract_attempt to_float (env a) st = (r, st', evs)"
    by (cases "extract_attempt to_float (env a) st") auto
  then have r: "attempt_outcome to_float env a = r"
    using extract_attempt_fst[of to_float env a st] by simp
  have e: "length (filter is_HttpGet evs) = 1"
    using extract_attempt_events[of to_float "env a" st] a by simp
  show ?case
  proof (cases r)
    case None
    then show ?thesis using a r e Cons.IH[of st']
      by (auto simp: Let_def split: prod.splits)
  next
    case (Some res)
    then show ?thesis using a r e by simp
  qed
qed

lemma first_success_None:
  "((case find (\<lambda>i. f i \<noteq> None) xs of None \<Rightarrow> None | Some i \<Rightarrow> f i) = None)
     = list_all (\<lambda>i. f i = None) xs"
  by (induction xs) auto

lemma takeWhile_length_le: "length (takeWhile P xs) \<le> length xs"
  by (rule length_takeWhile_le)

lemma takeWhile_all_length:
  "\<not> list_all P xs \<Longrightarrow> length (takeWhile P xs) < length xs"
  by (induction xs) auto

text \<open>
  C6. With \<open>MAX_RETRIES = N\<close>, \<open>extract_index_with_retry\<close> returns a value, never an
  exception: the value and text of the first attempt among \<open>0, \<dots>, N - 1\<close> that
  succeeds, and \<open>None\<close> exactly when all \<open>N\<close> attempts fail. It sends one request per
  attempt up to and including the first success, hence at most \<open>N\<close> requests.
\<close>

theorem extract_index_with_retry_first_success:
  "fst (extract_index_with_retry cfg to_float env st) =
     (case find (\<lambda>i. attempt_outcome to_float env i \<noteq> None) [0..<MAX_RETRIES cfg] of
        None \<Rightarrow> None
      | Some i \<Rightarrow> attempt_outcome to_float env i)
   \<and> (fst (extract_index_with_retry cfg to_float env st) = None)
       = list_all (\<lambda>i. attempt_outcome to_float env i = None) [0..<MAX_RETRIES cfg]
   \<and> length (filter is_HttpGet (snd (snd (extract_index_with_retry cfg to_float env st))))
       = length (takeWhile (\<lambda>i. attempt_outcome to_float env i = None) [0..<MAX_RETRIES cfg])
         + (if fst (extract_index_with_retry cfg to_float env st) = None then 0 else 1)
   \<and> length (filter is_HttpGet (snd (snd (extract_index_with_retry cfg to_float env st))))
       \<le> MAX_RETRIES cfg"
proof -
  let ?xs = "[0..<MAX_RETRIES cfg]"
  let ?P = "\<lambda>i. attempt_outcome to_float env i = None"
  let ?r = "extract_loop cfg to_float env ?xs st"
  have 1: "fst ?r = (case find (\<lambda>i. attempt_outcome to_float env i \<noteq> None) ?xs of
        None \<Rightarrow> None | Some i \<Rightarrow> attempt_outcome to_float env i)"
    by (rule extract_loop_result)
  have 2: "(fst ?r = None) = list_all ?P ?xs"
    unfolding 1 by (rule first_success_None)
  have 3: "length (filter is_HttpGet (snd (snd ?r)))
       = length (takeWhile ?P ?xs) + (if fst ?r = None then 0 else 1)"
    by (rule extract_loop_count)
  have 4: "length (filter is_HttpGet (snd (snd ?r))) \<le> MAX_RETRIES cfg"
  proof (cases "fst ?r = None")
    case True
    then show ?thesis using 3 takeWhile_length_le[of ?P ?xs] by simp
  next
    case False
    then have "\<not> list_all ?P ?xs" using 2 by simp
    then have "length (takeWhile ?P ?xs) < length ?xs" by (rule takeWhile_all_length)
    then show ?thesis using 3 False by simp
  qed
  show ?thesis unfolding extract_index_with_retry_def using 1 2 3 4 by blast
qed

lemma flaky_fetch_example:
  "fst (extract_index_with_retry configured_config example_to_float flaky_fetch
         (Level5AntiDetection configured_config)) = Some (Finite 1500, ''1,500.0'')
   \<and> map (\<lambda>ev. case ev of HumanDelay _ \<Rightarrow> ''delay'' | HttpGet _ \<Rightarrow> ''get'' | RetrySleep _ \<Rightarrow> ''sleep'')
        (snd (snd (extract_index_with_retry configured_config example_to_float flaky_fetch
           (Level5AntiDetection configured_config))))
      = [''delay'', ''get'', ''sleep'', ''delay'', ''get'', ''sleep'', ''delay'', ''get'']"
  by code_simp

section \<open>The bridge\<close>

lemma cfg_vals: "INDEX_BASELINE configured_config = 1500" "MAX_RETRIES configured_config = 3"
  "BLOCKCHAIN_RETRY_COUNT configured_config = 3" "MAX_GAS_PRICE_GWEI configured_config = 50"
  by (simp_all add: configured_config_def OracleConfig_def)

lemma ex_bridge: "BlockchainBridge True configured_config reachable_node
   = (\<lparr> enabled = True, account_address = Some ''0xA0'' \<rparr>, [IsConnected])"
  by (simp add: BlockchainBridge_def initialize_web3_def configured_config_def OracleConfig_def
      os_getenv_def reachable_node_def Let_def)

lemma initialize_web3_unconfigured:
  assumes "RPC_URL cfg = [] \<or> py_in ''YOUR_API_KEY'' (RPC_URL cfg)
     \<or> PRIVATE_KEY cfg = [] \<or> CONTRACT_ADDRESS cfg = []"
  shows "initialize_web3 cfg ie = (\<lparr> enabled = False, account_address = None \<rparr>, [])"
  using assms unfolding initialize_web3_def Let_def by auto

lemma run_disabled:
  assumes "\<not> enabled (blockchain_bridge sys)"
  shows "snd (snd (snd (run_oracle_update cfg fmt to_float sys renv))) = []
    \<and> list_all (\<lambda>r. blockchain_status r = ''disabled'' \<and> blockchain_tx_hash r = [])
         (fst (snd (snd (run_oracle_update cfg fmt to_float sys renv))))"
  using assms unfolding run_oracle_update_def Let_def
  by (auto split: prod.splits option.splits)

text \<open>
  C7. When the RPC endpoint is empty or still the placeholder of the default, or the
  private key is empty, or the contract address is empty, the bridge is constructed
  disabled without any call to the network; \<open>send_fee_update\<close> then returns \<open>None\<close>
  at once without any call, and a run makes no call of the bridge and stores the
  status \<open>disabled\<close> with an empty transaction hash.
\<close>

theorem bridge_disabled_without_configuration:
  assumes "RPC_URL cfg = [] \<or> py_in ''YOUR_API_KEY'' (RPC_URL cfg)
     \<or> PRIVATE_KEY cfg = [] \<or> CONTRACT_ADDRESS cfg = []"
  shows "BlockchainBridge web3_available cfg ie = (\<lparr> enabled = False, account_address = None \<rparr>, [])
    \<and> send_fee_update cfg (fst (BlockchainBridge web3_available cfg ie)) env fee_rate idx = (None, [])
    \<and> snd (snd (snd (run_oracle_update cfg fmt to_float (IndexOracleSystem web3_available cfg ie) renv))) = []
    \<and> list_all (\<lambda>r. blockchain_status r = ''disabled'' \<and> blockchain_tx_hash r = [])
         (fst (snd (snd (run_oracle_update cfg fmt to_float (IndexOracleSystem web3_available cfg ie) renv))))"
proof -
  have b: "BlockchainBridge web3_available cfg ie = (\<lparr> enabled = False, account_address = None \<rparr>, [])"
    unfolding BlockchainBridge_def using initialize_web3_unconfigured[OF assms] by simp
  have s: "send_fee_update cfg (fst (BlockchainBridge web3_available cfg ie)) env fee_rate idx = (None, [])"
    unfolding b send_fee_update_def by simp
  have "\<not> enabled (blockchain_bridge (IndexOracleSystem web3_available cfg ie))"
    unfolding IndexOracleSystem_def b by simp
  from run_disabled[OF this] b s show ?thesis by blast
qed

text \<open>
  The configuration of a process with no environment variable set satisfies the
  hypothesis: the endpoint is the placeholder, key and address are empty.
\<close>

theorem bridge_disabled_without_configuration_witness:
  "RPC_URL default_config = ''https://eth-sepolia.g.alchemy.com/v2/YOUR_API_KEY''
   \<and> py_in ''YOUR_API_KEY'' (RPC_URL default_config)
   \<and> PRIVATE_KEY default_config = [] \<and> CONTRACT_ADDRESS default_config = []
   \<and> BlockchainBridge True default_config reachable_node = (\<lparr> enabled = False, account_address = None \<rparr>, [])
   \<and> send_fee_update default_config (fst (BlockchainBridge True default_config reachable_node))
        (\<lambda>i. confirming_chain) 64 (Finite 1500) = (None, [])
   \<and> map blockchain_status (fst (snd (snd (run_oracle_update default_config example_formatter example_to_float
        (IndexOracleSystem True default_config reachable_node) (example_run (\<lambda>i. serving_fetch) (\<lambda>i. confirming_chain))))))
       = [''disabled'']"
proof -
  have h: "py_in ''YOUR_API_KEY'' (RPC_URL default_config)"
    by (simp add: default_config_def OracleConfig_def os_getenv_def)
  then have h': "RPC_URL default_config = [] \<or> py_in ''YOUR_API_KEY'' (RPC_URL default_config)
     \<or> PRIVATE_KEY default_config = [] \<or> CONTRACT_ADDRESS default_config = []" by simp
  have c: "RPC_URL default_config = ''https://eth-sepolia.g.alchemy.com/v2/YOUR_API_KEY''"
    "PRIVATE_KEY default_config = []" "CONTRACT_ADDRESS default_config = []"
    by (simp_all add: default_config_def OracleConfig_def os_getenv_def)
  have r: "length (fst (snd (snd (run_oracle_update default_config example_formatter example_to_float
        (IndexOracleSystem True default_config reachable_node) (example_run (\<lambda>i. serving_fetch) (\<lambda>i. confirming_chain)))))) = 1"
    by code_simp
  note t = bridge_disabled_without_configuration[OF h', of True reachable_node "\<lambda>i. confirming_chain" 64 "Finite 1500"
      example_formatter example_to_float "example_run (\<lambda>i. serving_fetch) (\<lambda>i. confirming_chain)"]
  have "map blockchain_status (fst (snd (snd (run_oracle_update default_config example_formatter example_to_float
        (IndexOracleSystem True default_config reachable_node) (example_run (\<lambda>i. serving_fetch) (\<lambda>i. confirming_chain))))))
       = [''disabled'']"
    using r t
    by (cases "fst (snd (snd (run_oracle_update default_config example_formatter example_to_float
        (IndexOracleSystem True default_config reachable_node) (example_run (\<lambda>i. serving_fetch) (\<lambda>i. confirming_chain)))))")
       auto
  then show ?thesis using h c t by blast
qed

lemma send_attempt_capped:
  assumes "py_int idx = Some i" and "gas_price ce = Some gp"
    and "to_wei_gwei (MAX_GAS_PRICE_GWEI cfg) < gp"
  shows "WarnGasPriceTooHigh gp \<in> set (snd (send_attempt cfg b ce fee_rate idx))"
    and "fst (send_attempt cfg b ce fee_rate idx)
       = fst (send_attempt cfg b (ce\<lparr>gas_price := Some (to_wei_gwei (MAX_GAS_PRICE_GWEI cfg))\<rparr>) fee_rate idx)"
    and "list_all (\<lambda>ev. case ev of BuildTransaction tx \<Rightarrow> tx_gasPrice tx = to_wei_gwei (MAX_GAS_PRICE_GWEI cfg) | _ \<Rightarrow> True)
           (snd (send_attempt cfg b ce fee_rate idx))"
    and "call_ok ce \<and> account_address b = Some a \<and> transaction_count ce = Some n \<longrightarrow>
          BuildTransaction \<lparr> tx_newFeeRate = fee_rate, tx_indexValue = i, tx_from = a,
              tx_gas = GAS_LIMIT cfg, tx_gasPrice = to_wei_gwei (MAX_GAS_PRICE_GWEI cfg),
              tx_nonce = n, tx_chainId = CHAIN_ID cfg \<rparr>
            \<in> set (snd (send_attempt cfg b ce fee_rate idx))"
  using assms unfolding send_attempt_def Let_def
  by (auto split: option.splits)

text \<open>
  C8. When the gas price read from the network is above the configured maximum, the
  attempt logs the warning and goes on: its outcome is the outcome of the same attempt
  at a price equal to the maximum, and every transaction it builds carries exactly the
  maximum as its gas price (the minimum of the observed price and the cap).
\<close>

theorem gas_price_capped:
  assumes "py_int idx = Some i" and "gas_price ce = Some gp"
    and "to_wei_gwei (MAX_GAS_PRICE_GWEI cfg) < gp"
  shows "WarnGasPriceTooHigh gp \<in> set (snd (send_attempt cfg b ce fee_rate idx))
    \<and> fst (send_attempt cfg b ce fee_rate idx)
       = fst (send_attempt cfg b (ce\<lparr>gas_price := Some (to_wei_gwei (MAX_GAS_PRICE_GWEI cfg))\<rparr>) fee_rate idx)
    \<and> list_all (\<lambda>ev. case ev of BuildTransaction tx \<Rightarrow> tx_gasPrice tx = to_wei_gwei (MAX_GAS_PRICE_GWEI cfg) | _ \<Rightarrow> True)
           (snd (send_attempt cfg b ce fee_rate idx))
    \<and> (call_ok ce \<and> account_address b = Some a \<and> transaction_count ce = Some n \<longrightarrow>
          BuildTransaction \<lparr> tx_newFeeRate = fee_rate, tx_indexValue = i, tx_from = a,
              tx_gas = GAS_LIMIT cfg, tx_gasPrice = to_wei_gwei (MAX_GAS_PRICE_GWEI cfg),
              tx_nonce = n, tx_chainId = CHAIN_ID cfg \<rparr>
            \<in> set (snd (send_attempt cfg b ce fee_rate idx)))"
  using send_attempt_capped[OF assms] by blast

text \<open>
  The scenario of the specification: an observed price of 80 gwei with the cap of
  50 gwei. The transaction is built with 50 gwei, sent and confirmed.
\<close>

theorem gas_price_capped_witness:
  "py_int (Finite 1500) = Some 1500 \<and> gas_price confirming_chain = Some 80000000000
   \<and> to_wei_gwei (MAX_GAS_PRICE_GWEI configured_config) = 50000000000
   \<and> to_wei_gwei (MAX_GAS_PRICE_GWEI configured_config) < 80000000000
   \<and> BuildTransaction \<lparr> tx_newFeeRate = 64, tx_indexValue = 1500, tx_from = ''0xA0'',
              tx_gas = 200000, tx_gasPrice = 50000000000, tx_nonce = 7, tx_chainId = 11155111 \<rparr>
        \<in> set (snd (send_attempt configured_config (fst (BlockchainBridge True configured_config reachable_node))
                  confirming_chain 64 (Finite 1500)))
   \<and> send_fee_update configured_config (fst (BlockchainBridge True configured_config reachable_node))
        (\<lambda>i. confirming_chain) 64 (Finite 1500)
      = (Some ''0xabc'',
         [ReadGasPrice, WarnGasPriceTooHigh 80000000000, ReadNonce,
          BuildTransaction \<lparr> tx_newFeeRate = 64, tx_indexValue = 1500, tx_from = ''0xA0'',
              tx_gas = 200000, tx_gasPrice = 50000000000, tx_nonce = 7, tx_chainId = 11155111 \<rparr>,
          SignTransaction, SendRawTransaction, WaitForReceipt])"
proof -
  have b: "fst (BlockchainBridge True configured_config reachable_node)
      = \<lparr> enabled = True, account_address = Some ''0xA0'' \<rparr>"
    by (simp add: ex_bridge)
  have h: "py_int (Finite 1500) = Some 1500" "gas_price confirming_chain = Some 80000000000"
    "to_wei_gwei (MAX_GAS_PRICE_GWEI configured_config) < 80000000000"
    by (simp_all add: confirming_chain_def to_wei_gwei_def cfg_vals)
  have c: "to_wei_gwei (MAX_GAS_PRICE_GWEI configured_config) = 50000000000"
    "GAS_LIMIT configured_config = 200000" "CHAIN_ID configured_config = 11155111"
    by (simp_all add: to_wei_gwei_def configured_config_def OracleConfig_def)
  have p: "call_ok confirming_chain
      \<and> account_address (fst (BlockchainBridge True configured_config reachable_node)) = Some ''0xA0''
      \<and> transaction_count confirming_chain = Some 7"
    by (simp add: b confirming_chain_def)
  have s: "send_fee_update configured_config (fst (BlockchainBridge True configured_config reachable_node))
        (\<lambda>i. confirming_chain) 64 (Finite 1500)
      = (Some ''0xabc'',
         [ReadGasPrice, WarnGasPriceTooHigh 80000000000, ReadNonce,
          BuildTransaction \<lparr> tx_newFeeRate = 64, tx_indexValue = 1500, tx_from = ''0xA0'',
              tx_gas = 200000, tx_gasPrice = 50000000000, tx_nonce = 7, tx_chainId = 11155111 \<rparr>,
          SignTransaction, SendRawTransaction, WaitForReceipt])"
    by code_simp
  from gas_price_capped[OF h, of "fst (BlockchainBridge True configured_config reachable_node)" 64 "''0xA0''" 7] p
  have "BuildTransaction \<lparr> tx_newFeeRate = 64, tx_indexValue = 1500, tx_from = ''0xA0'',
              tx_gas = GAS_LIMIT configured_config, tx_gasPrice = to_wei_gwei (MAX_GAS_PRICE_GWEI configured_config),
              tx_nonce = 7, tx_chainId = CHAIN_ID configured_config \<rparr>
        \<in> set (snd (send_attempt configured_config (fst (BlockchainBridge True configured_config reachable_node))
                  confirming_chain 64 (Finite 1500)))"
    by blast
  then show ?thesis using h c s by simp
qed

lemma send_loop_skip:
  assumes "\<forall>i\<in>set xs. fst (send_attempt cfg b (env i) fee_rate idx) = Raised"
  shows "fst (send_loop cfg b env (xs @ ys) fee_rate idx) = fst (send_loop cfg b env ys fee_rate idx)"
  using assms
proof (induction xs)
  case Nil
  then show ?case by simp
next
  case (Cons a xs)
  then obtain evs where "send_attempt cfg b (env a) fee_rate idx = (Raised, evs)"
    by (cases "send_attempt cfg b (env a) fee_rate idx") auto
  then show ?case using Cons by (auto simp: Let_def split: prod.splits)
qed

lemma send_loop_returned:
  assumes "send_attempt cfg b (env a) fee_rate idx = (Returned r, evs)"
  shows "send_loop cfg b env (a # ys) fee_rate idx = (r, evs)"
  using assms by simp

lemma send_attempt_receipt:
  assumes "py_int idx \<noteq> None" "gas_price ce \<noteq> None" "call_ok ce" "account_address b \<noteq> None"
    "transaction_count ce \<noteq> None" "build_ok ce" "sign_ok ce" "send_raw ce = Some h"
  shows "fst (send_attempt cfg b ce fee_rate idx) =
     (case wait_receipt ce of
        None \<Rightarrow> Returned (Some h)
      | Some r \<Rightarrow> if status r = 1 then Returned (Some h) else Returned None)"
    and "wait_receipt ce = None \<Longrightarrow> WarnNoReceipt \<in> set (snd (send_attempt cfg b ce fee_rate idx))"
  using assms unfolding send_attempt_def Let_def
  by (auto split: option.splits)

lemma send_fee_update_at:
  assumes en: "enabled b" and k: "k < BLOCKCHAIN_RETRY_COUNT cfg"
    and before: "\<forall>i<k. fst (send_attempt cfg b (env i) fee_rate idx) = Raised"
    and at: "fst (send_attempt cfg b (env k) fee_rate idx) = Returned r"
  shows "fst (send_fee_update cfg b env fee_rate idx) = r"
proof -
  have u: "[0..<BLOCKCHAIN_RETRY_COUNT cfg] = [0..<k] @ k # [Suc k..<BLOCKCHAIN_RETRY_COUNT cfg]"
    using k by (metis le0 upt_add_eq_append upt_conv_Cons le_add_diff_inverse less_imp_le_nat)
  have "\<forall>i\<in>set [0..<k]. fst (send_attempt cfg b (env i) fee_rate idx) = Raised"
    using before by simp
  from send_loop_skip[OF this]
  have "fst (send_loop cfg b env [0..<BLOCKCHAIN_RETRY_COUNT cfg] fee_rate idx)
      = fst (send_loop cfg b env (k # [Suc k..<BLOCKCHAIN_RETRY_COUNT cfg]) fee_rate idx)"
    unfolding u by simp
  also have "\<dots> = r"
    using at by (cases "send_attempt cfg b (env k) fee_rate idx") simp
  finally show ?thesis using en unfolding send_fee_update_def by simp
qed

section \<open>The pipeline\<close>

lemma run_fetch_failed:
  assumes "fst (extract_index_with_retry cfg to_float (fetch_reads renv) (anti_detection_state sys)) = None"
  shows "fst (run_oracle_update cfg fmt to_float sys renv) = False"
    and "fst (snd (snd (run_oracle_update cfg fmt to_float sys renv))) = []"
    and "snd (snd (snd (run_oracle_update cfg fmt to_float sys renv))) = []"
  using assms unfolding run_oracle_update_def
  by (auto split: prod.splits option.splits)

lemma run_after_fetch:
  assumes "fst (extract_index_with_retry cfg to_float (fetch_reads renv) (anti_detection_state sys)) = Some (v, itext)"
  shows "\<exists>r. fst (snd (snd (run_oracle_update cfg fmt to_float sys renv))) = [r]
     \<and> index_value r = v \<and> index_text r = itext \<and> fee_rate_bp r = calculate_fee_rate cfg v
     \<and> fee_explanation r = get_fee_explanation fmt cfg v (calculate_fee_rate cfg v)
     \<and> blockchain_status r =
         (if enabled (blockchain_bridge sys)
          then (case fst (send_fee_update cfg (blockchain_bridge sys) (chain_reads renv) (calculate_fee_rate cfg v) v) of
                  None \<Rightarrow> ''failed''
                | Some h \<Rightarrow> if h = [] then ''failed'' else ''success'')
          else ''disabled'')
     \<and> blockchain_tx_hash r =
         (if enabled (blockchain_bridge sys)
          then (case fst (send_fee_update cfg (blockchain_bridge sys) (chain_reads renv) (calculate_fee_rate cfg v) v) of
                  None \<Rightarrow> []
                | Some h \<Rightarrow> h)
          else [])"
    and "fst (run_oracle_update cfg fmt to_float sys renv) = display_ok renv"
  using assms unfolding run_oracle_update_def Let_def
  by (auto split: prod.splits option.splits)

text \<open>
  C1, as amended. A run whose extraction succeeds hands exactly one record to the
  storage, whatever the bridge does (status \<open>disabled\<close>, \<open>success\<close> or \<open>failed\<close>),
  holding the extracted value and text and the fee rate computed from the value. A run
  whose extraction returns \<open>None\<close> returns \<open>False\<close>, hands no record to the storage
  and does not call the bridge.
\<close>

theorem run_saves_record_iff_fetch_succeeds:
  "(case fst (extract_index_with_retry cfg to_float (fetch_reads renv) (anti_detection_state sys)) of
      None \<Rightarrow>
        fst (run_oracle_update cfg fmt to_float sys renv) = False
        \<and> fst (snd (snd (run_oracle_update cfg fmt to_float sys renv))) = []
        \<and> snd (snd (snd (run_oracle_update cfg fmt to_float sys renv))) = []
    | Some (v, itext) \<Rightarrow>
        fst (run_oracle_update cfg fmt to_float sys renv) = display_ok renv
        \<and> (\<exists>r. fst (snd (snd (run_oracle_update cfg fmt to_float sys renv))) = [r]
              \<and> index_value r = v \<and> index_text r = itext
              \<and> fee_rate_bp r = calculate_fee_rate cfg v
              \<and> blockchain_status r \<in> set [''disabled'', ''success'', ''failed'']))"
proof (cases "fst (extract_index_with_retry cfg to_float (fetch_reads renv) (anti_detection_state sys))")
  case None
  then show ?thesis using run_fetch_failed[OF None, of fmt] by simp
next
  case (Some p)
  obtain v itext where p: "p = (v, itext)" by (cases p)
  note f = Some[unfolded p]
  from run_after_fetch(1)[OF f, of fmt] obtain r where
    r: "fst (snd (snd (run_oracle_update cfg fmt to_float sys renv))) = [r]"
      "index_value r = v" "index_text r = itext" "fee_rate_bp r = calculate_fee_rate cfg v"
      "blockchain_status r =
         (if enabled (blockchain_bridge sys)
          then (case fst (send_fee_update cfg (blockchain_bridge sys) (chain_reads renv) (calculate_fee_rate cfg v) v) of
                  None \<Rightarrow> ''failed''
                | Some h \<Rightarrow> if h = [] then ''failed'' else ''success'')
          else ''disabled'')"
    by blast
  have "blockchain_status r \<in> set [''disabled'', ''success'', ''failed'']"
    unfolding r(5) by (simp split: option.splits)
  then show ?thesis using f r(1-4) run_after_fetch(2)[OF f, of fmt] by auto
qed

text \<open>
  The claim C1 as stated fails: when every extraction attempt fails, the run hands no
  record to the storage, so the number of records is not one.
\<close>

theorem failed_fetch_saves_nothing_counterexample:
  "fst (extract_index_with_retry configured_config example_to_float
          (fetch_reads (example_run (\<lambda>i. failing_fetch) (\<lambda>i. confirming_chain)))
          (anti_detection_state (IndexOracleSystem True configured_config reachable_node))) = None
   \<and> fst (snd (snd (run_oracle_update configured_config example_formatter example_to_float
        (IndexOracleSystem True configured_config reachable_node)
        (example_run (\<lambda>i. failing_fetch) (\<lambda>i. confirming_chain))))) = []
   \<and> length (fst (snd (snd (run_oracle_update configured_config example_formatter example_to_float
        (IndexOracleSystem True configured_config reachable_node)
        (example_run (\<lambda>i. failing_fetch) (\<lambda>i. confirming_chain)))))) \<noteq> 1"
  by code_simp

text \<open>
  C2, as amended. In a run whose extraction succeeded, when an attempt of the enabled
  bridge (all earlier attempts having raised) submits the transaction and the wait for
  the receipt raises or times out, \<open>send_fee_update\<close> returns the transaction hash, not
  \<open>None\<close>, so the run is not reported as failed. The outcome is not distinct from a
  confirmed transaction: the value returned is the one a confirming receipt would give,
  and the record of the run holds the hash with the status \<open>success\<close>.
\<close>

theorem receipt_error_reported_as_success:
  assumes fetch: "fst (extract_index_with_retry cfg to_float (fetch_reads renv) (anti_detection_state sys))
                    = Some (v, itext)"
    and en: "enabled (blockchain_bridge sys)"
    and k: "k < BLOCKCHAIN_RETRY_COUNT cfg"
    and before: "\<forall>i<k. fst (send_attempt cfg (blockchain_bridge sys) (chain_reads renv i)
                          (calculate_fee_rate cfg v) v) = Raised"
    and sub: "py_int v \<noteq> None" "gas_price (chain_reads renv k) \<noteq> None" "call_ok (chain_reads renv k)"
      "account_address (blockchain_bridge sys) \<noteq> None" "transaction_count (chain_reads renv k) \<noteq> None"
      "build_ok (chain_reads renv k)" "sign_ok (chain_reads renv k)"
      "send_raw (chain_reads renv k) = Some h"
    and rc: "wait_receipt (chain_reads renv k) = None"
    and h: "h \<noteq> []"
  shows "fst (send_fee_update cfg (blockchain_bridge sys) (chain_reads renv) (calculate_fee_rate cfg v) v) = Some h
    \<and> fst (send_fee_update cfg (blockchain_bridge sys)
            ((chain_reads renv)(k := (chain_reads renv k)\<lparr>wait_receipt := Some \<lparr>status = 1, blockNumber = n\<rparr>\<rparr>))
            (calculate_fee_rate cfg v) v) = Some h
    \<and> map blockchain_tx_hash (fst (snd (snd (run_oracle_update cfg fmt to_float sys renv)))) = [h]
    \<and> map blockchain_status (fst (snd (snd (run_oracle_update cfg fmt to_float sys renv)))) = [''success'']"
proof -
  let ?b = "blockchain_bridge sys" and ?f = "calculate_fee_rate cfg v"
  let ?env' = "(chain_reads renv)(k := (chain_reads renv k)\<lparr>wait_receipt := Some \<lparr>status = 1, blockNumber = n\<rparr>\<rparr>)"
  have a: "fst (send_attempt cfg ?b (chain_reads renv k) ?f v) = Returned (Some h)"
    using send_attempt_receipt(1)[OF sub, of cfg ?f] rc by simp
  have 1: "fst (send_fee_update cfg ?b (chain_reads renv) ?f v) = Some h"
    by (rule send_fee_update_at[OF en k before a])
  have before': "\<forall>i<k. fst (send_attempt cfg ?b (?env' i) ?f v) = Raised"
    using before by simp
  have "fst (send_attempt cfg ?b (?env' k) ?f v) = Returned (Some h)"
    using send_attempt_receipt(1)[of v "?env' k" ?b h cfg ?f] sub by simp
  from send_fee_update_at[OF en k before' this]
  have 2: "fst (send_fee_update cfg ?b ?env' ?f v) = Some h" .
  from run_after_fetch(1)[OF fetch, of fmt] obtain r where
    r: "fst (snd (snd (run_oracle_update cfg fmt to_float sys renv))) = [r]"
      "blockchain_status r =
         (if enabled ?b
          then (case fst (send_fee_update cfg ?b (chain_reads renv) ?f v) of
                  None \<Rightarrow> ''failed''
                | Some h \<Rightarrow> if h = [] then ''failed'' else ''success'')
          else ''disabled'')"
      "blockchain_tx_hash r =
         (if enabled ?b
          then (case fst (send_fee_update cfg ?b (chain_reads renv) ?f v) of
                  None \<Rightarrow> []
                | Some h \<Rightarrow> h)
          else [])"
    by blast
  have 3: "map blockchain_tx_hash (fst (snd (snd (run_oracle_update cfg fmt to_float sys renv)))) = [h]"
    unfolding r(1) using r(3) en 1 by simp
  have 4: "map blockchain_status (fst (snd (snd (run_oracle_update cfg fmt to_float sys renv)))) = [''success'']"
    unfolding r(1) using r(2) en 1 h by simp
  from 1 2 3 4 show ?thesis by blast
qed

text \<open>
  A run in which the first commit attempt raises at the gas price read and the second
  submits the transaction but gets no receipt.
\<close>

theorem receipt_error_reported_as_success_witness:
  "fst (extract_index_with_retry configured_config example_to_float
          (fetch_reads (example_run flaky_fetch flaky_chain))
          (anti_detection_state (IndexOracleSystem True configured_config reachable_node)))
      = Some (Finite 1500, ''1,500.0'')
   \<and> enabled (blockchain_bridge (IndexOracleSystem True configured_config reachable_node))
   \<and> 1 < BLOCKCHAIN_RETRY_COUNT configured_config
   \<and> fst (send_attempt configured_config (blockchain_bridge (IndexOracleSystem True configured_config reachable_node))
            (chain_reads (example_run flaky_fetch flaky_chain) 0)
            (calculate_fee_rate configured_config (Finite 1500)) (Finite 1500)) = Raised
   \<and> send_raw (chain_reads (example_run flaky_fetch flaky_chain) 1) = Some ''0xabc''
   \<and> wait_receipt (chain_reads (example_run flaky_fetch flaky_chain) 1) = None
   \<and> fst (send_fee_update configured_config (blockchain_bridge (IndexOracleSystem True configured_config reachable_node))
            (chain_reads (example_run flaky_fetch flaky_chain))
            (calculate_fee_rate configured_config (Finite 1500)) (Finite 1500)) = Some ''0xabc''
   \<and> map blockchain_status (fst (snd (snd (run_oracle_update configured_config example_formatter example_to_float
        (IndexOracleSystem True configured_config reachable_node) (example_run flaky_fetch flaky_chain)))))
      = [''success'']"
proof -
  let ?sys = "IndexOracleSystem True configured_config reachable_node"
  let ?renv = "example_run flaky_fetch flaky_chain"
  have fetch: "fst (extract_index_with_retry configured_config example_to_float (fetch_reads ?renv)
      (anti_detection_state ?sys)) = Some (Finite 1500, ''1,500.0'')"
    by code_simp
  have en: "enabled (blockchain_bridge ?sys)"
    by (simp add: IndexOracleSystem_def ex_bridge)
  have k: "1 < BLOCKCHAIN_RETRY_COUNT configured_config" by (simp add: cfg_vals)
  have r0: "fst (send_attempt configured_config (blockchain_bridge ?sys) (chain_reads ?renv 0)
      (calculate_fee_rate configured_config (Finite 1500)) (Finite 1500)) = Raised"
    by code_simp
  then have before: "\<forall>i<1. fst (send_attempt configured_config (blockchain_bridge ?sys) (chain_reads ?renv i)
      (calculate_fee_rate configured_config (Finite 1500)) (Finite 1500)) = Raised"
    by simp
  have sub: "py_int (Finite 1500) \<noteq> None" "gas_price (chain_reads ?renv 1) \<noteq> None"
    "call_ok (chain_reads ?renv 1)" "account_address (blockchain_bridge ?sys) \<noteq> None"
    "transaction_count (chain_reads ?renv 1) \<noteq> None" "build_ok (chain_reads ?renv 1)"
    "sign_ok (chain_reads ?renv 1)" "send_raw (chain_reads ?renv 1) = Some ''0xabc''"
    by (simp_all add: example_run_def flaky_chain_def silent_chain_def confirming_chain_def
        IndexOracleSystem_def ex_bridge)
  have rc: "wait_receipt (chain_reads ?renv 1) = None"
    by (simp add: example_run_def flaky_chain_def silent_chain_def confirming_chain_def)
  have h: "''0xabc'' \<noteq> []" by simp
  from receipt_error_reported_as_success[OF fetch en k before sub rc h, of 100 example_formatter]
    fetch en k r0 sub(8) rc
  show ?thesis by blast
qed

text \<open>
  The claim C2 as stated fails: a wait for the receipt that raises and a receipt that
  confirms give the same returned hash, and both runs are stored with the status
  \<open>success\<close>.
\<close>

theorem receipt_error_reported_as_success_counterexample:
  "wait_receipt silent_chain = None
   \<and> send_raw silent_chain = Some ''0xabc''
   \<and> fst (send_fee_update configured_config (fst (BlockchainBridge True configured_config reachable_node))
        (\<lambda>i. silent_chain) 64 (Finite 1500)) = Some ''0xabc''
   \<and> fst (send_fee_update configured_config (fst (BlockchainBridge True configured_config reachable_node))
        (\<lambda>i. confirming_chain) 64 (Finite 1500)) = Some ''0xabc''
   \<and> map blockchain_status (fst (snd (snd (run_oracle_update configured_config example_formatter example_to_float
        (IndexOracleSystem True configured_config reachable_node)
        (example_run (\<lambda>i. serving_fetch) (\<lambda>i. silent_chain)))))) = [''success'']
   \<and> map blockchain_status (fst (snd (snd (run_oracle_update configured_config example_formatter example_to_float
        (IndexOracleSystem True configured_config reachable_node)
        (example_run (\<lambda>i. serving_fetch) (\<lambda>i. confirming_chain)))))) = [''success'']"
  by code_simp

end
